theory Spec2Isabelle
  imports Main
begin

section \<open>Python values used by the server\<close>

text \<open>
  A Python \<open>str\<close> is a sequence of Unicode code points; it is modelled as the list of
  their numbers. \<open>py\<close> turns an ASCII literal into such a list, so that
  \<open>py ''sk-''\<close> is the Python literal \<open>"sk-"\<close>. Non-ASCII letters of the source's
  literals are written by their code point.
\<close>

type_synonym pystr = "nat list"

definition py :: "string \<Rightarrow> pystr" where
  "py cs = map of_char cs"

text \<open>\<open>str.isspace\<close> on one code point: the characters \<open>str.strip()\<close> removes.\<close>

definition isspace :: "nat \<Rightarrow> bool" where
  "isspace c \<longleftrightarrow>
     (0x09 \<le> c \<and> c \<le> 0x0D) \<or> (0x1C \<le> c \<and> c \<le> 0x20) \<or> c = 0x85 \<or> c = 0xA0 \<or>
     c = 0x1680 \<or> (0x2000 \<le> c \<and> c \<le> 0x200A) \<or> c = 0x2028 \<or> c = 0x2029 \<or>
     c = 0x202F \<or> c = 0x205F \<or> c = 0x3000"

text \<open>\<open>s.strip()\<close>: leading and trailing whitespace removed.\<close>

definition strip :: "pystr \<Rightarrow> pystr" where
  "strip s = rev (dropWhile isspace (rev (dropWhile isspace s)))"

text \<open>\<open>s.startswith(p)\<close>.\<close>

definition startswith :: "pystr \<Rightarrow> pystr \<Rightarrow> bool" where
  "startswith s p \<longleftrightarrow> take (length p) s = p"

text \<open>
  The values \<open>json.load\<close> and \<open>request.json\<close> produce. An object keeps its members in
  document order; a later duplicate of a key overrides an earlier one, as in the
  \<open>dict\<close> Python builds. Numbers are the integral ones.
\<close>

datatype json =
    JNull
  | JBool bool
  | JNum int
  | JStr pystr
  | JArr "json list"
  | JObj "(pystr \<times> json) list"

text \<open>
  The exceptions the code can meet. \<open>io_error\<close> are the failures of opening, reading,
  writing or removing a path that exists.
\<close>

datatype io_error = PermissionError | IsADirectoryError | UnicodeDecodeError | OSError

datatype exn =
    FileNotFoundError
  | IOError io_error
  | JSONDecodeError
  | AttributeError

text \<open>\<open>d.get(k, default)\<close> on a \<open>dict\<close>.\<close>

definition dict_get :: "(pystr \<times> json) list \<Rightarrow> pystr \<Rightarrow> json \<Rightarrow> json" where
  "dict_get kvs k d = (case map_of (rev kvs) k of None \<Rightarrow> d | Some v \<Rightarrow> v)"

text \<open>
  \<open>x.get(k, default)\<close> on any value: only a \<open>dict\<close> has the method, every other value
  raises \<open>AttributeError\<close>.
\<close>

fun py_get :: "json \<Rightarrow> pystr \<Rightarrow> json \<Rightarrow> exn + json" where
  "py_get (JObj kvs) k d = Inr (dict_get kvs k d)"
| "py_get _ k d = Inl AttributeError"

text \<open>\<open>x.strip()\<close> on any value: only a \<open>str\<close> has the method.\<close>

fun py_strip :: "json \<Rightarrow> exn + pystr" where
  "py_strip (JStr s) = Inr (strip s)"
| "py_strip _ = Inl AttributeError"

text \<open>Python's truth value of a JSON value, as \<open>if not x\<close> tests it.\<close>

fun truthy :: "json \<Rightarrow> bool" where
  "truthy JNull = False"
| "truthy (JBool b) = b"
| "truthy (JNum n) = (n \<noteq> 0)"
| "truthy (JStr s) = (s \<noteq> [])"
| "truthy (JArr xs) = (xs \<noteq> [])"
| "truthy (JObj kvs) = (kvs \<noteq> [])"

text \<open>
  What \<open>json.load\<close> reads back from a string that \<open>json.dump\<close> wrote. Every
  character outside ASCII is written as a \<open>\uXXXX\<close> escape, and the reader joins the
  escape of a high surrogate with a directly following escape of a low surrogate into
  the one character they encode, from left to right; everything else comes back as it
  was written.
\<close>

definition is_high_surrogate :: "nat \<Rightarrow> bool" where
  "is_high_surrogate c \<longleftrightarrow> 0xD800 \<le> c \<and> c \<le> 0xDBFF"

definition is_low_surrogate :: "nat \<Rightarrow> bool" where
  "is_low_surrogate c \<longleftrightarrow> 0xDC00 \<le> c \<and> c \<le> 0xDFFF"

fun json_reload :: "pystr \<Rightarrow> pystr" where
  "json_reload (h # l # cs) =
     (if is_high_surrogate h \<and> is_low_surrogate l
      then (0x10000 + (h - 0xD800) * 0x400 + (l - 0xDC00)) # json_reload cs
      else h # json_reload (l # cs))"
| "json_reload cs = cs"

section \<open>The files, the process state and the outside world\<close>

text \<open>
  A path on disk either names nothing (\<open>os.path.exists\<close> is false and \<open>open\<close> raises
  \<open>FileNotFoundError\<close>), or names something that cannot be read (opening or reading it
  raises the given exception), or names a readable file with the given content.
\<close>

datatype 'a on_disk = Absent | Unreadable io_error | Content 'a

text \<open>
  The content of the configuration file, seen through \<open>json.load\<close>: text that is not
  JSON, or the document it parses to.
\<close>

datatype config_text = Malformed | Document json

text \<open>
  \<open>config_file\<close> is the file at \<open>CONFIG_FILE\<close>, \<open>contexto_file\<close> the file at
  \<open>CONTEXTO_FILE\<close>, \<open>contexto\<close> the module's global variable.
\<close>

record state =
  config_file :: "config_text on_disk"
  contexto_file :: "pystr on_disk"
  contexto :: pystr

text \<open>A chat message of the completion API, and the keyword arguments of one call.\<close>

record message =
  role :: pystr
  content :: json

record completion =
  model :: pystr
  messages :: "message list"
  max_tokens :: nat

text \<open>An \<open>OpenAI\<close> client: its key and its base URL.\<close>

datatype client = Client pystr pystr

text \<open>
  What \<open>client.chat.completions.create\<close> does: it raises an exception with the given
  text, or returns a response whose choices have the given message contents.
\<close>

datatype remote_result = Raises pystr | Returns "json list"

text \<open>
  How writing the configuration file can fail. Either \<open>open(CONFIG_FILE, 'w')\<close> raises
  and nothing on disk has changed; or it has succeeded, which empties the file, and
  writing or closing raises: what is then left on disk, nothing or a part of the text, is
  the given content.
\<close>

datatype write_error = OpenRefused io_error | WriteFailed io_error config_text

text \<open>
  Everything the program does not control: whether the \<open>OpenAI\<close> constructor raises
  (with which text), what the remote API answers, whether writing the configuration file
  fails, whether the file as it is after a write can be read by the process (a file
  that is write-only stays so), whether removing it fails (with which text).
\<close>

record env =
  openai_init :: "pystr \<Rightarrow> pystr \<Rightarrow> pystr option"
  completions_create :: "client \<Rightarrow> completion \<Rightarrow> remote_result"
  write_fault :: "write_error option"
  read_back :: "io_error option"
  remove_fault :: "pystr option"

text \<open>The observable effects on the outside: a client constructed, a remote call issued.\<close>

datatype event = ClientInit pystr pystr | RemoteCall client completion

text \<open>
  What a handler gives back to the framework: a JSON body with its HTTP status, or an
  exception that leaves the handler.
\<close>

datatype outcome = Http nat json | Unhandled exn

section \<open>Credential store and context loader\<close>

definition base_url :: pystr where
  "base_url = py ''https://api.deepseek.com''"

definition read_file :: "'a on_disk \<Rightarrow> exn + 'a" where
  "read_file f = (case f of
       Absent \<Rightarrow> Inl FileNotFoundError
     | Unreadable e \<Rightarrow> Inl (IOError e)
     | Content c \<Rightarrow> Inr c)"

definition json_load :: "config_text \<Rightarrow> exn + json" where
  "json_load t = (case t of Malformed \<Rightarrow> Inl JSONDecodeError | Document j \<Rightarrow> Inr j)"

text \<open>The body of the \<open>try\<close> block of \<open>carregar_api_key\<close>.\<close>

definition carregar_api_key_try :: "state \<Rightarrow> exn + pystr" where
  "carregar_api_key_try s =
     (if config_file s \<noteq> Absent then
        (case read_file (config_file s) of
           Inl e \<Rightarrow> Inl e
         | Inr t \<Rightarrow>
            (case json_load t of
               Inl e \<Rightarrow> Inl e
             | Inr config \<Rightarrow>
                (case py_get config (py ''api_key'') (JStr []) of
                   Inl e \<Rightarrow> Inl e
                 | Inr v \<Rightarrow> py_strip v)))
      else Inr [])"

text \<open>\<open>except Exception\<close>: every exception of the block gives the empty string.\<close>

definition carregar_api_key :: "state \<Rightarrow> pystr" where
  "carregar_api_key s = (case carregar_api_key_try s of Inl e \<Rightarrow> [] | Inr k \<Rightarrow> k)"

text \<open>
  The configuration file after a write that left the given content: readable with that
  content, or as unreadable as the world has it.
\<close>

definition written :: "env \<Rightarrow> config_text \<Rightarrow> config_text on_disk" where
  "written w c = (case read_back w of None \<Rightarrow> Content c | Some e \<Rightarrow> Unreadable e)"

text \<open>
  \<open>salvar_api_key\<close>: every exception of the write is caught and gives \<open>False\<close>. When
  \<open>open\<close> raised the file is as before; when the write failed after \<open>open\<close> the old
  content is gone. Otherwise the file holds the one-member object, as \<open>json.load\<close> reads
  it back.
\<close>

definition salvar_api_key :: "env \<Rightarrow> state \<Rightarrow> pystr \<Rightarrow> bool \<times> state" where
  "salvar_api_key w s api_key =
     (case write_fault w of
        Some (OpenRefused e) \<Rightarrow> (False, s)
      | Some (WriteFailed e left) \<Rightarrow> (False, s\<lparr>config_file := written w left\<rparr>)
      | None \<Rightarrow>
         (True,
          s\<lparr>config_file :=
               written w (Document (JObj [(py ''api_key'', JStr (json_reload api_key))]))\<rparr>))"

definition fallback_contexto :: pystr where
  "fallback_contexto =
     py ''Voc'' @ [0xEA] @ py '' '' @ [0xE9] @ py '' um assistente '' @ [0xFA] @ py ''til.''"

text \<open>\<open>carregar_contexto\<close>: only \<open>FileNotFoundError\<close> is caught.\<close>

definition carregar_contexto :: "pystr on_disk \<Rightarrow> exn + pystr" where
  "carregar_contexto caminho_arquivo =
     (case read_file caminho_arquivo of
        Inr t \<Rightarrow> Inr (strip t)
      | Inl e \<Rightarrow> if e = FileNotFoundError then Inr fallback_contexto else Inl e)"

definition criar_cliente :: "env \<Rightarrow> state \<Rightarrow> client option \<times> event list" where
  "criar_cliente w s =
     (let api_key = carregar_api_key s in
      if api_key = [] then (None, [])
      else (case openai_init w api_key base_url of
              Some e \<Rightarrow> (None, [ClientInit api_key base_url])
            | None \<Rightarrow> (Some (Client api_key base_url), [ClientInit api_key base_url])))"

section \<open>Request handlers\<close>

text \<open>
  A handler takes the outside world, the state and, where it reads one, the parsed body
  of the request (\<open>request.json\<close>); it gives back its outcome, the effects on the
  outside in order, and the state it leaves.
\<close>

text \<open>The error envelope \<open>{"error": text}\<close>.\<close>

definition error_body :: "pystr \<Rightarrow> json" where
  "error_body text = JObj [(py ''error'', JStr text)]"

text \<open>The literals of the responses.\<close>

definition msg_configurada :: pystr where
  "msg_configurada = py ''API Key configurada''"

definition msg_nao_configurada :: pystr where
  "msg_nao_configurada = py ''API Key n'' @ [0xE3] @ py ''o configurada''"

definition msg_nao_fornecida :: pystr where
  "msg_nao_fornecida = py ''API Key n'' @ [0xE3] @ py ''o fornecida''"

definition msg_formato_invalido :: pystr where
  "msg_formato_invalido = py ''Formato de API Key inv'' @ [0xE1] @ py ''lido''"

definition msg_invalida :: pystr where
  "msg_invalida = py ''API Key inv'' @ [0xE1] @ py ''lida: ''"

definition msg_configure_primeiro :: pystr where
  "msg_configure_primeiro =
     py ''API Key n'' @ [0xE3] @ py ''o configurada. Por favor, configure primeiro.''"

definition check_api_key :: "state \<Rightarrow> outcome" where
  "check_api_key s =
     (let api_key = carregar_api_key s in
      Http 200 (JObj [(py ''configured'', JBool (api_key \<noteq> [])),
                      (py ''message'',
                       JStr (if api_key \<noteq> [] then msg_configurada else msg_nao_configurada))]))"

text \<open>The completion call \<open>save_api_key\<close> tests a key with.\<close>

definition test_completion :: completion where
  "test_completion =
     \<lparr>model = py ''deepseek-chat'',
      messages = [\<lparr>role = py ''user'', content = JStr (py ''test'')\<rparr>],
      max_tokens = 10\<rparr>"

text \<open>
  The \<open>try\<close> block of \<open>save_api_key\<close>: the constructor, then the call; \<open>Inl\<close> is the
  text of the exception either of them raised.
\<close>

definition save_api_key_try :: "env \<Rightarrow> pystr \<Rightarrow> (pystr + json list) \<times> event list" where
  "save_api_key_try w api_key =
     (case openai_init w api_key base_url of
        Some e \<Rightarrow> (Inl e, [ClientInit api_key base_url])
      | None \<Rightarrow>
         (let test_client = Client api_key base_url in
          case completions_create w test_client test_completion of
            Raises e \<Rightarrow>
              (Inl e, [ClientInit api_key base_url, RemoteCall test_client test_completion])
          | Returns test_response \<Rightarrow>
              (Inr test_response,
               [ClientInit api_key base_url, RemoteCall test_client test_completion])))"

definition save_api_key :: "env \<Rightarrow> state \<Rightarrow> json \<Rightarrow> outcome \<times> event list \<times> state" where
  "save_api_key w s data =
     (case py_get data (py ''api_key'') (JStr []) of
        Inl e \<Rightarrow> (Unhandled e, [], s)
      | Inr v \<Rightarrow>
         (case py_strip v of
            Inl e \<Rightarrow> (Unhandled e, [], s)
          | Inr api_key \<Rightarrow>
             if api_key = [] then (Http 400 (error_body msg_nao_fornecida), [], s)
             else if \<not> startswith api_key (py ''sk-'') then
               (Http 400 (error_body msg_formato_invalido), [], s)
             else
               (case save_api_key_try w api_key of
                  (Inl e, evs) \<Rightarrow> (Http 400 (error_body (msg_invalida @ e)), evs, s)
                | (Inr test_response, evs) \<Rightarrow>
                   (case salvar_api_key w s api_key of
                      (True, s') \<Rightarrow>
                        (Http 200 (JObj [(py ''success'', JBool True),
                                         (py ''message'', JStr (py ''API Key salva com sucesso''))]),
                         evs, s')
                    | (False, s') \<Rightarrow>
                        (Http 500 (error_body (py ''Erro ao salvar API Key'')), evs, s')))))"

text \<open>
  The \<open>try\<close> block of \<open>chat\<close>: the call, then \<open>response.choices[0]\<close>, which raises
  \<open>IndexError\<close> on an empty list; \<open>Inl\<close> is \<open>str(e)\<close>.
\<close>

definition chat_try :: "env \<Rightarrow> client \<Rightarrow> completion \<Rightarrow> pystr + json" where
  "chat_try w cl req =
     (case completions_create w cl req of
        Raises e \<Rightarrow> Inl e
      | Returns choices \<Rightarrow>
         (case choices of
            [] \<Rightarrow> Inl (py ''list index out of range'')
          | reply # _ \<Rightarrow> Inr reply))"

definition chat :: "env \<Rightarrow> state \<Rightarrow> json \<Rightarrow> outcome \<times> event list \<times> state" where
  "chat w s data =
     (case criar_cliente w s of
        (None, evs) \<Rightarrow> (Http 401 (error_body msg_configure_primeiro), evs, s)
      | (Some cl, evs) \<Rightarrow>
         (case py_get data (py ''message'') (JStr []) of
            Inl e \<Rightarrow> (Unhandled e, evs, s)
          | Inr user_text \<Rightarrow>
             if \<not> truthy user_text then (Http 400 (error_body (py ''Mensagem vazia'')), evs, s)
             else
               (let req = \<lparr>model = py ''deepseek-chat'',
                           messages = [\<lparr>role = py ''system'', content = JStr (contexto s)\<rparr>,
                                       \<lparr>role = py ''user'', content = user_text\<rparr>],
                           max_tokens = 2000\<rparr>
                in case chat_try w cl req of
                     Inr reply \<Rightarrow>
                       (Http 200 (JObj [(py ''reply'', reply)]), evs @ [RemoteCall cl req], s)
                   | Inl e \<Rightarrow> (Http 500 (error_body e), evs @ [RemoteCall cl req], s))))"

definition reset_context :: "state \<Rightarrow> outcome \<times> state" where
  "reset_context s =
     (case carregar_contexto (contexto_file s) of
        Inl e \<Rightarrow> (Unhandled e, s)
      | Inr c \<Rightarrow>
         (Http 200 (JObj [(py ''status'', JStr (py ''success'')),
                          (py ''message'', JStr (py ''Contexto reiniciado''))]),
          s\<lparr>contexto := c\<rparr>))"

definition removida_body :: json where
  "removida_body =
     JObj [(py ''success'', JBool True), (py ''message'', JStr (py ''API Key removida com sucesso''))]"

definition delete_api_key :: "env \<Rightarrow> state \<Rightarrow> outcome \<times> state" where
  "delete_api_key w s =
     (if config_file s \<noteq> Absent then
        (case remove_fault w of
           Some e \<Rightarrow> (Http 500 (error_body e), s)
         | None \<Rightarrow> (Http 200 removida_body, s\<lparr>config_file := Absent\<rparr>))
      else (Http 200 removida_body, s))"

section \<open>Notions of the specification and sample inputs\<close>

text \<open>
  The stored value of the \<open>api_key\<close> member, when the configuration file is readable, is
  JSON and parses to an object that has the member; nothing otherwise.
\<close>

definition stored_api_key :: "config_text on_disk \<Rightarrow> json option" where
  "stored_api_key f =
     (case f of
        Content (Document (JObj kvs)) \<Rightarrow> map_of (rev kvs) (py ''api_key'')
      | _ \<Rightarrow> None)"

text \<open>A world where the constructor and the remote API succeed and the disk is writable.\<close>

definition env_ok :: env where
  "env_ok =
     \<lparr>openai_init = (\<lambda>k u. None),
      completions_create = (\<lambda>c r. Returns [JStr (py ''ok'')]),
      write_fault = None,
      read_back = None,
      remove_fault = None\<rparr>"

text \<open>No configuration file, no context file.\<close>

definition state_empty :: state where
  "state_empty = \<lparr>config_file = Absent, contexto_file = Absent, contexto = fallback_contexto\<rparr>"

text \<open>The configuration file holds \<open>{"api_key": "sk-abc"}\<close>.\<close>

definition state_with_key :: state where
  "state_with_key =
     state_empty\<lparr>config_file := Content (Document (JObj [(py ''api_key'', JStr (py ''sk-abc''))]))\<rparr>"

text \<open>
  The load operation as the specification words it: the empty string where there is no
  stored \<open>api_key\<close> value (file absent, unreadable, not JSON, or parsed JSON without the
  member), and otherwise the stored value with surrounding whitespace removed.
\<close>

definition trimmed :: "json \<Rightarrow> json" where
  "trimmed v = (case v of JStr t \<Rightarrow> JStr (strip t) | _ \<Rightarrow> v)"

definition load_as_stated :: "state \<Rightarrow> bool" where
  "load_as_stated s \<longleftrightarrow>
     (case stored_api_key (config_file s) of
        None \<Rightarrow> carregar_api_key s = []
      | Some v \<Rightarrow> JStr (carregar_api_key s) = trimmed v)"

text \<open>
  A world where the remote API refuses every call; one where the configuration file may
  not be opened for writing; one where the disk is full, so that the write fails after
  \<open>open\<close> and leaves an empty file.
\<close>

definition env_rejecting :: env where
  "env_rejecting = env_ok\<lparr>completions_create := (\<lambda>c r. Raises (py ''401''))\<rparr>"

definition env_read_only :: env where
  "env_read_only = env_ok\<lparr>write_fault := Some (OpenRefused PermissionError)\<rparr>"

definition env_disk_full :: env where
  "env_disk_full = env_ok\<lparr>write_fault := Some (WriteFailed OSError Malformed)\<rparr>"

text \<open>
  A configuration file the process may write and not read (mode 0200), in the state and
  in the world.
\<close>

definition env_write_only :: env where
  "env_write_only = env_ok\<lparr>read_back := Some PermissionError\<rparr>"

definition state_write_only :: state where
  "state_write_only = state_empty\<lparr>config_file := Unreadable PermissionError\<rparr>"

text \<open>
  A string has a surrogate pair when a high surrogate is directly followed by a low one.
\<close>

fun has_surrogate_pair :: "pystr \<Rightarrow> bool" where
  "has_surrogate_pair (h # l # cs) \<longleftrightarrow>
     is_high_surrogate h \<and> is_low_surrogate l \<or> has_surrogate_pair (l # cs)"
| "has_surrogate_pair cs \<longleftrightarrow> False"

text \<open>The configuration file holds \<open>{"api_key": 123}\<close>.\<close>

definition state_numeric_key :: state where
  "state_numeric_key =
     state_empty\<lparr>config_file := Content (Document (JObj [(py ''api_key'', JNum 123)]))\<rparr>"

text \<open>The context file exists and the process may not read it.\<close>

definition state_context_denied :: state where
  "state_context_denied = state_empty\<lparr>contexto_file := Unreadable PermissionError\<rparr>"

section \<open>Basic facts\<close>

lemma strip_strip: "strip (strip s) = strip s"
proof -
  define t where "t = dropWhile isspace s"
  define u where "u = rev (dropWhile isspace (rev t))"
  have tu: "t = u @ rev (takeWhile isspace (rev t))"
    unfolding u_def by (metis rev_append rev_rev_ident takeWhile_dropWhile_id)
  have "dropWhile isspace u = u"
  proof (cases "u = []")
    case True then show ?thesis by simp
  next
    case False
    then have "t \<noteq> []" using tu by auto
    then have "\<not> isspace (hd t)" unfolding t_def by (rule hd_dropWhile)
    moreover have "hd t = hd u" using tu False by (metis hd_append2)
    ultimately show ?thesis using False by (cases u) auto
  qed
  moreover have "dropWhile isspace (rev u) = rev u"
    unfolding u_def by simp
  ultimately show ?thesis
    unfolding strip_def t_def[symmetric] u_def[symmetric] by simp
qed

lemma carregar_api_key_stored:
  "carregar_api_key s =
     (case stored_api_key (config_file s) of Some (JStr v) \<Rightarrow> strip v | _ \<Rightarrow> [])"
  by (auto simp: carregar_api_key_def carregar_api_key_try_def stored_api_key_def read_file_def
      json_load_def dict_get_def strip_def
      split: on_disk.splits config_text.splits json.splits option.splits sum.splits)

lemma stored_api_key_written:
  "stored_api_key (Content (Document (JObj [(py ''api_key'', v)]))) = Some v"
  by (simp add: stored_api_key_def)

lemma criar_cliente_events:
  "snd (criar_cliente w s) =
     (if carregar_api_key s = [] then [] else [ClientInit (carregar_api_key s) base_url])"
  by (simp add: criar_cliente_def Let_def split: option.splits)

lemma criar_cliente_Some:
  "criar_cliente w s = (Some cl, evs) \<Longrightarrow>
     cl = Client (carregar_api_key s) base_url \<and> evs = [ClientInit (carregar_api_key s) base_url]
     \<and> carregar_api_key s \<noteq> [] \<and> openai_init w (carregar_api_key s) base_url = None"
  by (auto simp: criar_cliente_def Let_def split: option.splits if_splits)

lemma criar_cliente_None:
  "criar_cliente w s = (None, evs) \<Longrightarrow> \<forall>cl r. RemoteCall cl r \<notin> set evs"
  by (auto simp: criar_cliente_def Let_def split: option.splits if_splits)

lemmas sample_defs =
  env_ok_def state_empty_def state_with_key_def

lemmas run_defs =
  criar_cliente_def carregar_api_key_stored stored_api_key_def dict_get_def strip_def
  isspace_def py_def Let_def

text \<open>
  \<open>save_api_key\<close> once the key has passed the two local checks, and when it has not.
\<close>

lemma save_api_key_checked:
  assumes "py_get data (py ''api_key'') (JStr []) = Inr (JStr raw)"
    and "strip raw \<noteq> []" and "startswith (strip raw) (py ''sk-'')"
  shows "save_api_key w s data =
     (case save_api_key_try w (strip raw) of
        (Inl e, evs) \<Rightarrow> (Http 400 (error_body (msg_invalida @ e)), evs, s)
      | (Inr test_response, evs) \<Rightarrow>
         (case salvar_api_key w s (strip raw) of
            (True, s') \<Rightarrow>
              (Http 200 (JObj [(py ''success'', JBool True),
                               (py ''message'', JStr (py ''API Key salva com sucesso''))]),
               evs, s')
          | (False, s') \<Rightarrow>
              (Http 500 (error_body (py ''Erro ao salvar API Key'')), evs, s')))"
  using assms by (simp add: save_api_key_def)

lemma save_api_key_unchecked:
  assumes "\<not> (\<exists>raw. py_get data (py ''api_key'') (JStr []) = Inr (JStr raw) \<and>
             strip raw \<noteq> [] \<and> startswith (strip raw) (py ''sk-''))"
  shows "snd (save_api_key w s data) = ([], s)"
proof (cases "py_get data (py ''api_key'') (JStr [])")
  case (Inl e)
  then show ?thesis by (simp add: save_api_key_def)
next
  case (Inr v)
  show ?thesis
  proof (cases v)
    case (JStr raw)
    with Inr assms have "strip raw = [] \<or> \<not> startswith (strip raw) (py ''sk-'')" by blast
    with Inr JStr show ?thesis by (auto simp: save_api_key_def)
  qed (use Inr in \<open>simp_all add: save_api_key_def\<close>)
qed

text \<open>
  What is read back of a key: a key without a surrogate pair comes back as it is, and a
  key that starts with \<open>sk-\<close> comes back as a key that is not empty when trimmed.
\<close>

lemma json_reload_no_pair: "\<not> has_surrogate_pair k \<Longrightarrow> json_reload k = k"
  by (induction k rule: json_reload.induct) auto

lemma strip_nonspace_head: "\<not> isspace c \<Longrightarrow> strip (c # cs) \<noteq> []"
  by (simp add: strip_def dropWhile_append)

lemma checked_key_loads:
  assumes "startswith k (py ''sk-'')"
  shows "strip (json_reload k) \<noteq> []"
proof -
  from assms have "take (Suc (Suc (Suc 0))) k = [115, 107, 45]"
    by (simp add: startswith_def py_def)
  then obtain rest where k: "k = 115 # 107 # 45 # rest"
    by (cases k; cases "tl k"; cases "tl (tl k)") auto
  have "json_reload k = 115 # json_reload (107 # 45 # rest)"
    unfolding k by (simp add: is_high_surrogate_def)
  then show ?thesis
    by (simp add: strip_nonspace_head isspace_def)
qed

text \<open>What \<open>save_api_key\<close> has done when it answers 200.\<close>

lemma save_api_key_200:
  assumes "save_api_key w s data = (Http 200 body, evs, s1)"
  shows "\<exists>key. startswith key (py ''sk-'') \<and>
           s1 = s\<lparr>config_file :=
                    written w (Document (JObj [(py ''api_key'', JStr (json_reload key))]))\<rparr>"
proof (cases "\<exists>raw. py_get data (py ''api_key'') (JStr []) = Inr (JStr raw) \<and>
             strip raw \<noteq> [] \<and> startswith (strip raw) (py ''sk-'')")
  case True
  then obtain raw where h: "py_get data (py ''api_key'') (JStr []) = Inr (JStr raw)"
      "strip raw \<noteq> []" "startswith (strip raw) (py ''sk-'')" by blast
  from assms have "s1 = s\<lparr>config_file :=
      written w (Document (JObj [(py ''api_key'', JStr (json_reload (strip raw)))]))\<rparr>"
    unfolding save_api_key_checked[OF h]
    by (auto simp: salvar_api_key_def
        split: prod.splits sum.splits option.splits bool.splits write_error.splits)
  with h show ?thesis by blast
next
  case False
  have "fst (save_api_key w s data) \<noteq> Http 200 body"
  proof (cases "py_get data (py ''api_key'') (JStr [])")
    case (Inl e)
    then show ?thesis by (simp add: save_api_key_def)
  next
    case (Inr v)
    show ?thesis
    proof (cases v)
      case (JStr raw)
      with Inr False have "strip raw = [] \<or> \<not> startswith (strip raw) (py ''sk-'')" by blast
      with Inr JStr show ?thesis by (auto simp: save_api_key_def)
    qed (use Inr in \<open>simp_all add: save_api_key_def\<close>)
  qed
  with assms show ?thesis by simp
qed

section \<open>The chat handler: empty messages\<close>

text \<open>
  C1, as the code has it. When the \<open>message\<close> member is missing or empty (Python's
  \<open>not user_text\<close>), \<open>chat\<close> has first tried to build the client from the stored key:
  with a client it answers 400 "Mensagem vazia", without one 401; in both cases no remote
  call is issued and the state is unchanged.
\<close>

theorem chat_empty_message:
  assumes "py_get data (py ''message'') (JStr []) = Inr m" and "\<not> truthy m"
  shows "(\<forall>cl evs. criar_cliente w s = (Some cl, evs) \<longrightarrow>
            chat w s data = (Http 400 (error_body (py ''Mensagem vazia'')), evs, s)) \<and>
         (\<forall>evs. criar_cliente w s = (None, evs) \<longrightarrow>
            chat w s data = (Http 401 (error_body msg_configure_primeiro), evs, s)) \<and>
         (\<forall>cl r. RemoteCall cl r \<notin> set (fst (snd (chat w s data))))"
proof (intro conjI allI impI)
  fix cl evs assume "criar_cliente w s = (Some cl, evs)"
  then show "chat w s data = (Http 400 (error_body (py ''Mensagem vazia'')), evs, s)"
    using assms by (simp add: chat_def)
next
  fix evs assume "criar_cliente w s = (None, evs)"
  then show "chat w s data = (Http 401 (error_body msg_configure_primeiro), evs, s)"
    by (simp add: chat_def)
next
  fix cl r
  show "RemoteCall cl r \<notin> set (fst (snd (chat w s data)))"
  proof (cases "criar_cliente w s")
    case (Pair c evs)
    then show ?thesis
      using assms criar_cliente_Some[of w s _ evs] criar_cliente_None[of w s evs]
      by (cases c) (auto simp: chat_def)
  qed
qed

text \<open>
  The theorem at the request \<open>{}\<close> with the key \<open>sk-abc\<close> stored: the answer is 400 and
  the only effect is the construction of the client.
\<close>

theorem chat_empty_message_witness:
  "py_get (JObj []) (py ''message'') (JStr []) = Inr (JStr []) \<and> \<not> truthy (JStr []) \<and>
   criar_cliente env_ok state_with_key =
     (Some (Client (py ''sk-abc'') base_url), [ClientInit (py ''sk-abc'') base_url]) \<and>
   chat env_ok state_with_key (JObj []) =
     (Http 400 (error_body (py ''Mensagem vazia'')), [ClientInit (py ''sk-abc'') base_url],
      state_with_key)"
proof -
  have get: "py_get (JObj []) (py ''message'') (JStr []) = Inr (JStr [])"
    by (simp add: dict_get_def)
  have falsy: "\<not> truthy (JStr [])"
    by simp
  have cl: "criar_cliente env_ok state_with_key =
      (Some (Client (py ''sk-abc'') base_url), [ClientInit (py ''sk-abc'') base_url])"
    by (simp add: run_defs sample_defs)
  from chat_empty_message[OF get falsy, of env_ok state_with_key] cl get falsy
  show ?thesis by simp
qed

text \<open>
  C1 as stated fails. With the key \<open>sk-abc\<close> stored, a message of three spaces is
  relayed: the answer is the reply, after a client was constructed and a remote call
  issued. With the same key an empty message is answered 400 only after the client was
  constructed, and without a stored key it is answered 401.
\<close>

theorem chat_whitespace_message_counterexample:
  "chat env_ok state_with_key (JObj [(py ''message'', JStr (py ''   ''))]) =
     (Http 200 (JObj [(py ''reply'', JStr (py ''ok''))]),
      [ClientInit (py ''sk-abc'') base_url,
       RemoteCall (Client (py ''sk-abc'') base_url)
         \<lparr>model = py ''deepseek-chat'',
          messages = [\<lparr>role = py ''system'', content = JStr fallback_contexto\<rparr>,
                      \<lparr>role = py ''user'', content = JStr (py ''   '')\<rparr>],
          max_tokens = 2000\<rparr>],
      state_with_key) \<and>
   chat env_ok state_with_key (JObj [(py ''message'', JStr [])]) =
     (Http 400 (error_body (py ''Mensagem vazia'')), [ClientInit (py ''sk-abc'') base_url],
      state_with_key) \<and>
   chat env_ok state_empty (JObj [(py ''message'', JStr [])]) =
     (Http 401 (error_body msg_configure_primeiro), [], state_empty)"
  by (simp add: chat_def chat_try_def run_defs sample_defs)

section \<open>Saving a credential\<close>

text \<open>
  C2. \<open>save_api_key\<close> validates in order and stops at the first failure: a key that is
  empty after trimming is answered 400 "API Key n\~ao fornecida"; otherwise a trimmed key
  that does not start with \<open>sk-\<close> is answered 400 "Formato de API Key inv\'alido"; both
  without any effect on the outside. A client is constructed or a remote call issued only
  for a key that passes both checks.
\<close>

theorem save_api_key_validation_order:
  "(\<forall>raw. py_get data (py ''api_key'') (JStr []) = Inr (JStr raw) \<and> strip raw = [] \<longrightarrow>
      save_api_key w s data = (Http 400 (error_body msg_nao_fornecida), [], s)) \<and>
   (\<forall>raw. py_get data (py ''api_key'') (JStr []) = Inr (JStr raw) \<and> strip raw \<noteq> [] \<and>
      \<not> startswith (strip raw) (py ''sk-'') \<longrightarrow>
      save_api_key w s data = (Http 400 (error_body msg_formato_invalido), [], s)) \<and>
   (fst (snd (save_api_key w s data)) \<noteq> [] \<longrightarrow>
      (\<exists>raw. py_get data (py ''api_key'') (JStr []) = Inr (JStr raw) \<and> strip raw \<noteq> [] \<and>
         startswith (strip raw) (py ''sk-'')))"
proof (intro conjI allI impI)
  fix raw
  assume "py_get data (py ''api_key'') (JStr []) = Inr (JStr raw) \<and> strip raw = []"
  then show "save_api_key w s data = (Http 400 (error_body msg_nao_fornecida), [], s)"
    by (simp add: save_api_key_def)
next
  fix raw
  assume "py_get data (py ''api_key'') (JStr []) = Inr (JStr raw) \<and> strip raw \<noteq> [] \<and>
      \<not> startswith (strip raw) (py ''sk-'')"
  then show "save_api_key w s data = (Http 400 (error_body msg_formato_invalido), [], s)"
    by (simp add: save_api_key_def)
next
  assume "fst (snd (save_api_key w s data)) \<noteq> []"
  then show "\<exists>raw. py_get data (py ''api_key'') (JStr []) = Inr (JStr raw) \<and> strip raw \<noteq> [] \<and>
         startswith (strip raw) (py ''sk-'')"
    using save_api_key_unchecked[of data w s] by fastforce
qed

text \<open>The theorem at a key of two spaces and at the key \<open>abc\<close>.\<close>

theorem save_api_key_validation_order_witness:
  "save_api_key env_ok state_empty (JObj [(py ''api_key'', JStr (py ''  ''))]) =
     (Http 400 (error_body msg_nao_fornecida), [], state_empty) \<and>
   save_api_key env_ok state_empty (JObj [(py ''api_key'', JStr (py '' abc ''))]) =
     (Http 400 (error_body msg_formato_invalido), [], state_empty)"
proof -
  have a: "py_get (JObj [(py ''api_key'', JStr (py ''  ''))]) (py ''api_key'') (JStr []) =
      Inr (JStr (py ''  '')) \<and> strip (py ''  '') = []"
    by (simp add: dict_get_def strip_def isspace_def py_def)
  have b: "py_get (JObj [(py ''api_key'', JStr (py '' abc ''))]) (py ''api_key'') (JStr []) =
      Inr (JStr (py '' abc '')) \<and> strip (py '' abc '') \<noteq> [] \<and>
      \<not> startswith (strip (py '' abc '')) (py ''sk-'')"
    by (simp add: dict_get_def strip_def isspace_def py_def startswith_def)
  from save_api_key_validation_order[of "JObj [(py ''api_key'', JStr (py ''  ''))]" env_ok state_empty]
    save_api_key_validation_order[of "JObj [(py ''api_key'', JStr (py '' abc ''))]" env_ok state_empty]
    a b show ?thesis by blast
qed

text \<open>
  C3. For a key that passed the two local checks, \<open>save_api_key\<close> constructs a client
  with the trimmed key and issues one completion call: model \<open>deepseek-chat\<close>, the single
  user message "test", at most 10 tokens. An exception of the constructor or of the call
  is answered 400 with its text after "API Key inv\'alida: ", and the key is not
  persisted: the state is unchanged. When the call returns, the key is handed to
  \<open>salvar_api_key\<close>, whose state the handler leaves: a successful write is answered 200
  and the file holds the key, a failed write is answered 500. The state changes only
  when both local checks passed and the call returned.
\<close>

theorem save_api_key_remote_validation:
  "(\<forall>raw. py_get data (py ''api_key'') (JStr []) = Inr (JStr raw) \<and> strip raw \<noteq> [] \<and>
      startswith (strip raw) (py ''sk-'') \<longrightarrow>
      (let key = strip raw;
           probe = \<lparr>model = py ''deepseek-chat'',
                    messages = [\<lparr>role = py ''user'', content = JStr (py ''test'')\<rparr>],
                    max_tokens = 10\<rparr>
       in (openai_init w key base_url = None \<longrightarrow>
             fst (snd (save_api_key w s data)) =
               [ClientInit key base_url, RemoteCall (Client key base_url) probe]) \<and>
          (\<forall>e. openai_init w key base_url = Some e \<or>
                openai_init w key base_url = None \<and>
                completions_create w (Client key base_url) probe = Raises e \<longrightarrow>
             fst (save_api_key w s data) = Http 400 (error_body (msg_invalida @ e)) \<and>
             snd (snd (save_api_key w s data)) = s) \<and>
          (\<forall>r. openai_init w key base_url = None \<and>
                completions_create w (Client key base_url) probe = Returns r \<longrightarrow>
             snd (snd (save_api_key w s data)) = snd (salvar_api_key w s key) \<and>
             (write_fault w = None \<longrightarrow>
                fst (save_api_key w s data) =
                  Http 200 (JObj [(py ''success'', JBool True),
                                  (py ''message'', JStr (py ''API Key salva com sucesso''))]) \<and>
                snd (snd (save_api_key w s data)) =
                  s\<lparr>config_file :=
                       written w (Document (JObj [(py ''api_key'', JStr (json_reload key))]))\<rparr>) \<and>
             (write_fault w \<noteq> None \<longrightarrow>
                fst (save_api_key w s data) =
                  Http 500 (error_body (py ''Erro ao salvar API Key'')))))) \<and>
   (snd (snd (save_api_key w s data)) \<noteq> s \<longrightarrow>
      (\<exists>raw r. py_get data (py ''api_key'') (JStr []) = Inr (JStr raw) \<and> strip raw \<noteq> [] \<and>
         startswith (strip raw) (py ''sk-'') \<and> openai_init w (strip raw) base_url = None \<and>
         completions_create w (Client (strip raw) base_url) test_completion = Returns r))"
proof (intro conjI allI impI)
  fix raw
  assume h: "py_get data (py ''api_key'') (JStr []) = Inr (JStr raw) \<and> strip raw \<noteq> [] \<and>
      startswith (strip raw) (py ''sk-'')"
  then have eq: "save_api_key w s data =
     (case save_api_key_try w (strip raw) of
        (Inl e, evs) \<Rightarrow> (Http 400 (error_body (msg_invalida @ e)), evs, s)
      | (Inr test_response, evs) \<Rightarrow>
         (case salvar_api_key w s (strip raw) of
            (True, s') \<Rightarrow>
              (Http 200 (JObj [(py ''success'', JBool True),
                               (py ''message'', JStr (py ''API Key salva com sucesso''))]),
               evs, s')
          | (False, s') \<Rightarrow>
              (Http 500 (error_body (py ''Erro ao salvar API Key'')), evs, s')))"
    by (simp add: save_api_key_checked)
  show "let key = strip raw;
           probe = \<lparr>model = py ''deepseek-chat'',
                    messages = [\<lparr>role = py ''user'', content = JStr (py ''test'')\<rparr>],
                    max_tokens = 10\<rparr>
       in (openai_init w key base_url = None \<longrightarrow>
             fst (snd (save_api_key w s data)) =
               [ClientInit key base_url, RemoteCall (Client key base_url) probe]) \<and>
          (\<forall>e. openai_init w key base_url = Some e \<or>
                openai_init w key base_url = None \<and>
                completions_create w (Client key base_url) probe = Raises e \<longrightarrow>
             fst (save_api_key w s data) = Http 400 (error_body (msg_invalida @ e)) \<and>
             snd (snd (save_api_key w s data)) = s) \<and>
          (\<forall>r. openai_init w key base_url = None \<and>
                completions_create w (Client key base_url) probe = Returns r \<longrightarrow>
             snd (snd (save_api_key w s data)) = snd (salvar_api_key w s key) \<and>
             (write_fault w = None \<longrightarrow>
                fst (save_api_key w s data) =
                  Http 200 (JObj [(py ''success'', JBool True),
                                  (py ''message'', JStr (py ''API Key salva com sucesso''))]) \<and>
                snd (snd (save_api_key w s data)) =
                  s\<lparr>config_file :=
                       written w (Document (JObj [(py ''api_key'', JStr (json_reload key))]))\<rparr>) \<and>
             (write_fault w \<noteq> None \<longrightarrow>
                fst (save_api_key w s data) =
                  Http 500 (error_body (py ''Erro ao salvar API Key''))))"
    unfolding eq Let_def
    by (auto simp: save_api_key_try_def salvar_api_key_def test_completion_def Let_def
        split: option.splits remote_result.splits write_error.splits)
next
  assume ch: "snd (snd (save_api_key w s data)) \<noteq> s"
  then obtain raw where h: "py_get data (py ''api_key'') (JStr []) = Inr (JStr raw)"
      "strip raw \<noteq> []" "startswith (strip raw) (py ''sk-'')"
    using save_api_key_unchecked[of data w s] by fastforce
  from ch show "\<exists>raw r. py_get data (py ''api_key'') (JStr []) = Inr (JStr raw) \<and> strip raw \<noteq> [] \<and>
         startswith (strip raw) (py ''sk-'') \<and> openai_init w (strip raw) base_url = None \<and>
         completions_create w (Client (strip raw) base_url) test_completion = Returns r"
    unfolding save_api_key_checked[OF h]
    using h
    by (auto simp: save_api_key_try_def Let_def
        split: option.splits remote_result.splits)
qed

text \<open>
  The theorem at the key \<open>sk-abc\<close> (sent with surrounding spaces) in four worlds: the
  API accepts and the disk is writable; the API refuses; the file may not be opened for
  writing, and the stored key stays; the disk is full, the answer is 500 and the stored
  key is lost with the emptied file.
\<close>

theorem save_api_key_remote_validation_witness:
  "py_get (JObj [(py ''api_key'', JStr (py '' sk-abc ''))]) (py ''api_key'') (JStr []) =
     Inr (JStr (py '' sk-abc '')) \<and>
   strip (py '' sk-abc '') = py ''sk-abc'' \<and> startswith (py ''sk-abc'') (py ''sk-'') \<and>
   save_api_key env_ok state_empty (JObj [(py ''api_key'', JStr (py '' sk-abc ''))]) =
     (Http 200 (JObj [(py ''success'', JBool True),
                      (py ''message'', JStr (py ''API Key salva com sucesso''))]),
      [ClientInit (py ''sk-abc'') base_url,
       RemoteCall (Client (py ''sk-abc'') base_url)
         \<lparr>model = py ''deepseek-chat'',
          messages = [\<lparr>role = py ''user'', content = JStr (py ''test'')\<rparr>],
          max_tokens = 10\<rparr>],
      state_with_key) \<and>
   fst (save_api_key env_rejecting state_empty (JObj [(py ''api_key'', JStr (py '' sk-abc ''))])) =
     Http 400 (error_body (msg_invalida @ py ''401'')) \<and>
   snd (snd (save_api_key env_rejecting state_empty
     (JObj [(py ''api_key'', JStr (py '' sk-abc ''))]))) = state_empty \<and>
   fst (save_api_key env_read_only state_with_key (JObj [(py ''api_key'', JStr (py '' sk-abc ''))])) =
     Http 500 (error_body (py ''Erro ao salvar API Key'')) \<and>
   snd (snd (save_api_key env_read_only state_with_key
     (JObj [(py ''api_key'', JStr (py '' sk-abc ''))]))) = state_with_key \<and>
   fst (save_api_key env_disk_full state_with_key (JObj [(py ''api_key'', JStr (py '' sk-abc ''))])) =
     Http 500 (error_body (py ''Erro ao salvar API Key'')) \<and>
   snd (snd (save_api_key env_disk_full state_with_key
     (JObj [(py ''api_key'', JStr (py '' sk-abc ''))]))) =
     state_with_key\<lparr>config_file := Content Malformed\<rparr>"
proof -
  have g: "py_get (JObj [(py ''api_key'', JStr (py '' sk-abc ''))]) (py ''api_key'') (JStr []) =
     Inr (JStr (py '' sk-abc ''))"
    by (simp add: dict_get_def)
  have st: "strip (py '' sk-abc '') = py ''sk-abc''"
    by (simp add: strip_def isspace_def py_def)
  have sw: "startswith (py ''sk-abc'') (py ''sk-'')"
    by (simp add: startswith_def py_def)
  have ne: "py ''sk-abc'' \<noteq> []"
    by (simp add: py_def)
  have rl: "json_reload (py ''sk-abc'') = py ''sk-abc''"
    by (simp add: py_def is_high_surrogate_def)
  have envs: "openai_init env_ok (py ''sk-abc'') base_url = None"
    "completions_create env_ok (Client (py ''sk-abc'') base_url)
       \<lparr>model = py ''deepseek-chat'',
        messages = [\<lparr>role = py ''user'', content = JStr (py ''test'')\<rparr>],
        max_tokens = 10\<rparr> = Returns [JStr (py ''ok'')]"
    "write_fault env_ok = None"
    "openai_init env_rejecting (py ''sk-abc'') base_url = None"
    "completions_create env_rejecting (Client (py ''sk-abc'') base_url)
       \<lparr>model = py ''deepseek-chat'',
        messages = [\<lparr>role = py ''user'', content = JStr (py ''test'')\<rparr>],
        max_tokens = 10\<rparr> = Raises (py ''401'')"
    "openai_init env_read_only (py ''sk-abc'') base_url = None"
    "completions_create env_read_only (Client (py ''sk-abc'') base_url)
       \<lparr>model = py ''deepseek-chat'',
        messages = [\<lparr>role = py ''user'', content = JStr (py ''test'')\<rparr>],
        max_tokens = 10\<rparr> = Returns [JStr (py ''ok'')]"
    "write_fault env_read_only \<noteq> None"
    "openai_init env_disk_full (py ''sk-abc'') base_url = None"
    "completions_create env_disk_full (Client (py ''sk-abc'') base_url)
       \<lparr>model = py ''deepseek-chat'',
        messages = [\<lparr>role = py ''user'', content = JStr (py ''test'')\<rparr>],
        max_tokens = 10\<rparr> = Returns [JStr (py ''ok'')]"
    "write_fault env_disk_full \<noteq> None"
    by (simp_all add: env_ok_def env_rejecting_def env_read_only_def env_disk_full_def)
  have sk: "state_with_key =
      state_empty\<lparr>config_file := written env_ok (Document (JObj [(py ''api_key'', JStr (py ''sk-abc''))]))\<rparr>"
    by (simp add: state_with_key_def written_def env_ok_def)
  have sv: "snd (salvar_api_key env_read_only state_with_key (py ''sk-abc'')) = state_with_key"
    "snd (salvar_api_key env_disk_full state_with_key (py ''sk-abc'')) =
       state_with_key\<lparr>config_file := Content Malformed\<rparr>"
    "snd (salvar_api_key env_ok state_empty (py ''sk-abc'')) = state_with_key"
    by (simp_all add: salvar_api_key_def written_def env_read_only_def env_disk_full_def
        env_ok_def state_with_key_def py_def is_high_surrogate_def)
  note inst = save_api_key_remote_validation
      [of "JObj [(py ''api_key'', JStr (py '' sk-abc ''))]", THEN conjunct1, rule_format,
       of "py '' sk-abc ''", unfolded Let_def st]
  have ok: "save_api_key env_ok state_empty (JObj [(py ''api_key'', JStr (py '' sk-abc ''))]) =
     (Http 200 (JObj [(py ''success'', JBool True),
                      (py ''message'', JStr (py ''API Key salva com sucesso''))]),
      [ClientInit (py ''sk-abc'') base_url,
       RemoteCall (Client (py ''sk-abc'') base_url)
         \<lparr>model = py ''deepseek-chat'',
          messages = [\<lparr>role = py ''user'', content = JStr (py ''test'')\<rparr>],
          max_tokens = 10\<rparr>],
      state_with_key)"
    using inst[of env_ok state_empty] g st sw ne rl envs(1-3) sk sv(3)
    by (simp add: prod_eq_iff)
  have rej: "fst (save_api_key env_rejecting state_empty
        (JObj [(py ''api_key'', JStr (py '' sk-abc ''))])) =
      Http 400 (error_body (msg_invalida @ py ''401'')) \<and>
    snd (snd (save_api_key env_rejecting state_empty
        (JObj [(py ''api_key'', JStr (py '' sk-abc ''))]))) = state_empty"
    using inst[of env_rejecting state_empty] g st sw ne envs(4,5)
    by simp
  have ro: "fst (save_api_key env_read_only state_with_key
        (JObj [(py ''api_key'', JStr (py '' sk-abc ''))])) =
      Http 500 (error_body (py ''Erro ao salvar API Key'')) \<and>
    snd (snd (save_api_key env_read_only state_with_key
        (JObj [(py ''api_key'', JStr (py '' sk-abc ''))]))) = state_with_key"
    using inst[of env_read_only state_with_key] g st sw ne envs(6-8) sv(1)
    by simp
  have df: "fst (save_api_key env_disk_full state_with_key
        (JObj [(py ''api_key'', JStr (py '' sk-abc ''))])) =
      Http 500 (error_body (py ''Erro ao salvar API Key'')) \<and>
    snd (snd (save_api_key env_disk_full state_with_key
        (JObj [(py ''api_key'', JStr (py '' sk-abc ''))]))) =
      state_with_key\<lparr>config_file := Content Malformed\<rparr>"
    using inst[of env_disk_full state_with_key] g st sw ne envs(9-11) sv(2)
    by simp
  from g st sw ok rej ro df show ?thesis by simp
qed

section \<open>The chat handler: relaying a message\<close>

text \<open>
  C4. When \<open>criar_cliente\<close> gives a client (the handler's test for a configured key) and
  the message is not empty, \<open>chat\<close> issues exactly one remote call, with model
  \<open>deepseek-chat\<close>, at most 2000 tokens and exactly two messages: the system message
  holding the in-memory context, then the user message holding the request's message.
  When the call returns choices the answer is 200 with the content of the first one as
  \<open>reply\<close>; when it raises, the answer is 500 with the text of the exception, and so
  is a response without choices, with the text of the \<open>IndexError\<close>.
\<close>

theorem chat_relay:
  assumes "criar_cliente w s = (Some cl, evs)"
    and "py_get data (py ''message'') (JStr []) = Inr user_text"
    and "truthy user_text"
  shows "(let req = \<lparr>model = py ''deepseek-chat'',
                     messages = [\<lparr>role = py ''system'', content = JStr (contexto s)\<rparr>,
                                 \<lparr>role = py ''user'', content = user_text\<rparr>],
                     max_tokens = 2000\<rparr>
          in cl = Client (carregar_api_key s) base_url \<and>
             snd (chat w s data) =
               ([ClientInit (carregar_api_key s) base_url, RemoteCall cl req], s) \<and>
             (\<forall>reply rest. completions_create w cl req = Returns (reply # rest) \<longrightarrow>
                fst (chat w s data) = Http 200 (JObj [(py ''reply'', reply)])) \<and>
             (\<forall>e. completions_create w cl req = Raises e \<longrightarrow>
                fst (chat w s data) = Http 500 (error_body e)) \<and>
             (completions_create w cl req = Returns [] \<longrightarrow>
                fst (chat w s data) = Http 500 (error_body (py ''list index out of range''))))"
  using assms criar_cliente_Some[OF assms(1)]
  by (auto simp: chat_def chat_try_def Let_def split: sum.splits remote_result.splits list.splits)

text \<open>The theorem at the message "hi" with the key \<open>sk-abc\<close> stored.\<close>

theorem chat_relay_witness:
  "criar_cliente env_ok state_with_key =
     (Some (Client (py ''sk-abc'') base_url), [ClientInit (py ''sk-abc'') base_url]) \<and>
   py_get (JObj [(py ''message'', JStr (py ''hi''))]) (py ''message'') (JStr []) =
     Inr (JStr (py ''hi'')) \<and>
   truthy (JStr (py ''hi'')) \<and>
   chat env_ok state_with_key (JObj [(py ''message'', JStr (py ''hi''))]) =
     (Http 200 (JObj [(py ''reply'', JStr (py ''ok''))]),
      [ClientInit (py ''sk-abc'') base_url,
       RemoteCall (Client (py ''sk-abc'') base_url)
         \<lparr>model = py ''deepseek-chat'',
          messages = [\<lparr>role = py ''system'', content = JStr fallback_contexto\<rparr>,
                      \<lparr>role = py ''user'', content = JStr (py ''hi'')\<rparr>],
          max_tokens = 2000\<rparr>],
      state_with_key)"
proof -
  have c: "criar_cliente env_ok state_with_key =
     (Some (Client (py ''sk-abc'') base_url), [ClientInit (py ''sk-abc'') base_url])"
    by (simp add: run_defs sample_defs)
  have g: "py_get (JObj [(py ''message'', JStr (py ''hi''))]) (py ''message'') (JStr []) =
     Inr (JStr (py ''hi''))"
    by (simp add: dict_get_def)
  have t: "truthy (JStr (py ''hi''))"
    by (simp add: py_def)
  have k: "carregar_api_key state_with_key = py ''sk-abc''"
    by (simp add: run_defs sample_defs)
  have r: "completions_create env_ok c' r' = Returns [JStr (py ''ok'')]" for c' r'
    by (simp add: env_ok_def)
  have x: "contexto state_with_key = fallback_contexto"
    by (simp add: sample_defs)
  have "chat env_ok state_with_key (JObj [(py ''message'', JStr (py ''hi''))]) =
     (Http 200 (JObj [(py ''reply'', JStr (py ''ok''))]),
      [ClientInit (py ''sk-abc'') base_url,
       RemoteCall (Client (py ''sk-abc'') base_url)
         \<lparr>model = py ''deepseek-chat'',
          messages = [\<lparr>role = py ''system'', content = JStr fallback_contexto\<rparr>,
                      \<lparr>role = py ''user'', content = JStr (py ''hi'')\<rparr>],
          max_tokens = 2000\<rparr>],
      state_with_key)"
    using chat_relay[OF c g t, unfolded Let_def k x] r
    by (simp add: prod_eq_iff)
  with c g t show ?thesis by simp
qed

section \<open>Loading the credential and the context\<close>

text \<open>
  C5, as the code has it. \<open>carregar_api_key\<close> never raises: every exception of its body
  gives the empty string. It returns the empty string when the file is absent, cannot be
  read or is not JSON, when the parsed JSON has no \<open>api_key\<close> member (or is no object),
  and also when the \<open>api_key\<close> member is not a string; when the member is a string it
  returns that string trimmed.
\<close>

theorem carregar_api_key_total:
  "(\<forall>e. carregar_api_key_try s = Inl e \<longrightarrow> carregar_api_key s = []) \<and>
   (config_file s = Absent \<longrightarrow> carregar_api_key s = []) \<and>
   (\<forall>e. config_file s = Unreadable e \<longrightarrow> carregar_api_key s = []) \<and>
   (config_file s = Content Malformed \<longrightarrow> carregar_api_key s = []) \<and>
   (stored_api_key (config_file s) = None \<longrightarrow> carregar_api_key s = []) \<and>
   (\<forall>v. stored_api_key (config_file s) = Some v \<and> (\<forall>t. v \<noteq> JStr t) \<longrightarrow>
      carregar_api_key s = []) \<and>
   (\<forall>t. stored_api_key (config_file s) = Some (JStr t) \<longrightarrow> carregar_api_key s = strip t)"
proof (intro conjI allI impI)
  fix e assume "carregar_api_key_try s = Inl e"
  then show "carregar_api_key s = []" by (simp add: carregar_api_key_def)
next
  assume "config_file s = Absent"
  then show "carregar_api_key s = []"
    by (simp add: carregar_api_key_stored stored_api_key_def)
next
  fix e assume "config_file s = Unreadable e"
  then show "carregar_api_key s = []"
    by (simp add: carregar_api_key_stored stored_api_key_def)
next
  assume "config_file s = Content Malformed"
  then show "carregar_api_key s = []"
    by (simp add: carregar_api_key_stored stored_api_key_def)
next
  assume "stored_api_key (config_file s) = None"
  then show "carregar_api_key s = []"
    by (simp add: carregar_api_key_stored)
next
  fix v assume "stored_api_key (config_file s) = Some v \<and> (\<forall>t. v \<noteq> JStr t)"
  then show "carregar_api_key s = []"
    by (cases v) (simp_all add: carregar_api_key_stored)
next
  fix t assume "stored_api_key (config_file s) = Some (JStr t)"
  then show "carregar_api_key s = strip t"
    by (simp add: carregar_api_key_stored)
qed

text \<open>
  The theorem at three configuration files: \<open>{"api_key": "sk-abc"}\<close>,
  \<open>{"api_key": 123}\<close> and none.
\<close>

theorem carregar_api_key_total_witness:
  "stored_api_key (config_file state_with_key) = Some (JStr (py ''sk-abc'')) \<and>
   carregar_api_key state_with_key = py ''sk-abc'' \<and>
   stored_api_key (config_file state_numeric_key) = Some (JNum 123) \<and>
   carregar_api_key state_numeric_key = [] \<and>
   config_file state_empty = Absent \<and> carregar_api_key state_empty = []"
proof -
  have a: "stored_api_key (config_file state_with_key) = Some (JStr (py ''sk-abc''))"
    by (simp add: sample_defs stored_api_key_def)
  have b: "stored_api_key (config_file state_numeric_key) = Some (JNum 123)"
    by (simp add: state_numeric_key_def sample_defs stored_api_key_def)
  have c: "config_file state_empty = Absent"
    by (simp add: state_empty_def)
  have st: "strip (py ''sk-abc'') = py ''sk-abc''"
    by (simp add: strip_def isspace_def py_def)
  from carregar_api_key_total[of state_with_key] carregar_api_key_total[of state_numeric_key]
    carregar_api_key_total[of state_empty] a b c st
  show ?thesis by simp
qed

text \<open>
  C5 as stated fails. The file \<open>{"api_key": 123}\<close> is present, readable, JSON, and has
  the \<open>api_key\<close> member, so it is none of the states listed for the empty string; the
  stored value is the number 123, and the result is the empty string, not that value.
\<close>

theorem carregar_api_key_number_counterexample:
  "config_file state_numeric_key = Content (Document (JObj [(py ''api_key'', JNum 123)])) \<and>
   stored_api_key (config_file state_numeric_key) = Some (JNum 123) \<and>
   carregar_api_key state_numeric_key = [] \<and>
   \<not> load_as_stated state_numeric_key"
  by (simp add: load_as_stated_def trimmed_def state_numeric_key_def sample_defs run_defs)

text \<open>
  C6. \<open>carregar_contexto\<close> returns the content of a readable file trimmed, returns the
  fallback "Voc\^e \'e um assistente \'util." when the file does not exist, and lets every
  other failure of reading leave with its exception: the fallback stands in for a missing
  file only.
\<close>

theorem carregar_contexto_cases:
  "carregar_contexto (Content t) = Inr (strip t) \<and>
   carregar_contexto Absent = Inr fallback_contexto \<and>
   carregar_contexto (Unreadable e) = Inl (IOError e) \<and>
   ((\<forall>c. f \<noteq> Content c) \<longrightarrow> (carregar_contexto f = Inr fallback_contexto \<longleftrightarrow> f = Absent))"
proof (intro conjI impI)
  assume "\<forall>c. f \<noteq> Content c"
  then show "carregar_contexto f = Inr fallback_contexto \<longleftrightarrow> f = Absent"
    by (cases f) (simp_all add: carregar_contexto_def read_file_def)
qed (simp_all add: carregar_contexto_def read_file_def)

text \<open>The theorem at a file holding " You are Bob. " and at a file that may not be read.\<close>

theorem carregar_contexto_cases_witness:
  "carregar_contexto (Content (py '' You are Bob. '')) = Inr (py ''You are Bob.'') \<and>
   carregar_contexto (Unreadable PermissionError) = Inl (IOError PermissionError) \<and>
   carregar_contexto (Unreadable PermissionError) \<noteq> Inr fallback_contexto"
  using carregar_contexto_cases[of "py '' You are Bob. ''" PermissionError
      "Unreadable PermissionError"]
  by (simp add: strip_def isspace_def py_def)

section \<open>Resetting the context\<close>

text \<open>
  C7, as the code has it. \<open>reset_context\<close> takes no input and reloads the context from
  the fixed path. When the context file is absent the context becomes the fallback, when
  it is readable the context becomes its trimmed content, and in both cases the answer is
  200 with status "success" and a message. When the file exists and cannot be read, the
  exception leaves the handler: there is no such answer and the context is unchanged.
\<close>

theorem reset_context_cases:
  "(contexto_file s = Absent \<longrightarrow>
      reset_context s =
        (Http 200 (JObj [(py ''status'', JStr (py ''success'')),
                         (py ''message'', JStr (py ''Contexto reiniciado''))]),
         s\<lparr>contexto := fallback_contexto\<rparr>)) \<and>
   (\<forall>t. contexto_file s = Content t \<longrightarrow>
      reset_context s =
        (Http 200 (JObj [(py ''status'', JStr (py ''success'')),
                         (py ''message'', JStr (py ''Contexto reiniciado''))]),
         s\<lparr>contexto := strip t\<rparr>)) \<and>
   (\<forall>e. contexto_file s = Unreadable e \<longrightarrow> reset_context s = (Unhandled (IOError e), s))"
  by (simp add: reset_context_def carregar_contexto_def read_file_def)

text \<open>
  The theorem at the state without a context file and at a state whose context file
  holds "You are Bob." followed by a newline.
\<close>

theorem reset_context_cases_witness:
  "contexto_file state_empty = Absent \<and>
   reset_context state_empty =
     (Http 200 (JObj [(py ''status'', JStr (py ''success'')),
                      (py ''message'', JStr (py ''Contexto reiniciado''))]),
      state_empty\<lparr>contexto := fallback_contexto\<rparr>) \<and>
   reset_context (state_empty\<lparr>contexto_file := Content (py ''You are Bob.'' @ [0x0A])\<rparr>) =
     (Http 200 (JObj [(py ''status'', JStr (py ''success'')),
                      (py ''message'', JStr (py ''Contexto reiniciado''))]),
      state_empty\<lparr>contexto_file := Content (py ''You are Bob.'' @ [0x0A]),
                   contexto := py ''You are Bob.''\<rparr>)"
proof -
  have st: "strip (py ''You are Bob.'' @ [0x0A]) = py ''You are Bob.''"
    by (simp add: strip_def isspace_def py_def)
  from reset_context_cases[of state_empty]
    reset_context_cases[of "state_empty\<lparr>contexto_file := Content (py ''You are Bob.'' @ [0x0A])\<rparr>"]
    st
  show ?thesis by (simp add: state_empty_def)
qed

text \<open>
  C7 as stated fails: with a context file the process may not read, \<open>reset_context\<close>
  does not answer at all, the \<open>PermissionError\<close> leaves the handler.
\<close>

theorem reset_context_denied_counterexample:
  "reset_context state_context_denied = (Unhandled (IOError PermissionError), state_context_denied)"
  by (simp add: reset_context_def carregar_contexto_def read_file_def state_context_denied_def
      state_empty_def)

section \<open>Round trips of the credential\<close>

text \<open>
  C8, as the code has it. After \<open>save_api_key\<close> answered 200, and provided the process
  can read the configuration file it has written, \<open>check_api_key\<close> reports
  \<open>configured: true\<close>; after a following \<open>delete_api_key\<close> answered 200,
  \<open>check_api_key\<close> reports \<open>configured: false\<close>.
\<close>

theorem credential_round_trip:
  assumes "save_api_key w s data = (Http 200 body, evs, s1)"
  shows "(read_back w = None \<longrightarrow>
            check_api_key s1 =
              Http 200 (JObj [(py ''configured'', JBool True),
                              (py ''message'', JStr msg_configurada)])) \<and>
         (\<forall>w' body' s2. delete_api_key w' s1 = (Http 200 body', s2) \<longrightarrow>
            check_api_key s2 =
              Http 200 (JObj [(py ''configured'', JBool False),
                              (py ''message'', JStr msg_nao_configurada)]))"
proof (intro conjI allI impI)
  assume rb: "read_back w = None"
  from save_api_key_200[OF assms] obtain key where
    h: "startswith key (py ''sk-'')"
       "s1 = s\<lparr>config_file :=
                written w (Document (JObj [(py ''api_key'', JStr (json_reload key))]))\<rparr>"
    by blast
  with rb have "carregar_api_key s1 = strip (json_reload key)"
    by (simp add: carregar_api_key_stored stored_api_key_written written_def)
  with checked_key_loads[OF h(1)] show "check_api_key s1 =
      Http 200 (JObj [(py ''configured'', JBool True), (py ''message'', JStr msg_configurada)])"
    by (simp add: check_api_key_def)
next
  fix w' body' s2
  assume "delete_api_key w' s1 = (Http 200 body', s2)"
  then have "config_file s2 = Absent"
    by (auto simp: delete_api_key_def split: if_splits option.splits)
  then have "carregar_api_key s2 = []"
    by (simp add: carregar_api_key_stored stored_api_key_def)
  then show "check_api_key s2 =
      Http 200 (JObj [(py ''configured'', JBool False), (py ''message'', JStr msg_nao_configurada)])"
    by (simp add: check_api_key_def)
qed

text \<open>The theorem at the key \<open>sk-abc\<close>, saved into the empty state and deleted again.\<close>

theorem credential_round_trip_witness:
  "save_api_key env_ok state_empty (JObj [(py ''api_key'', JStr (py ''sk-abc''))]) =
     (Http 200 (JObj [(py ''success'', JBool True),
                      (py ''message'', JStr (py ''API Key salva com sucesso''))]),
      [ClientInit (py ''sk-abc'') base_url, RemoteCall (Client (py ''sk-abc'') base_url) test_completion],
      state_with_key) \<and>
   read_back env_ok = None \<and>
   check_api_key state_with_key =
     Http 200 (JObj [(py ''configured'', JBool True), (py ''message'', JStr msg_configurada)]) \<and>
   delete_api_key env_ok state_with_key = (Http 200 removida_body, state_empty) \<and>
   check_api_key state_empty =
     Http 200 (JObj [(py ''configured'', JBool False), (py ''message'', JStr msg_nao_configurada)])"
proof -
  have sv: "save_api_key env_ok state_empty (JObj [(py ''api_key'', JStr (py ''sk-abc''))]) =
     (Http 200 (JObj [(py ''success'', JBool True),
                      (py ''message'', JStr (py ''API Key salva com sucesso''))]),
      [ClientInit (py ''sk-abc'') base_url, RemoteCall (Client (py ''sk-abc'') base_url) test_completion],
      state_with_key)"
    by (simp add: save_api_key_def save_api_key_try_def salvar_api_key_def startswith_def
        written_def is_high_surrogate_def run_defs sample_defs)
  have rb: "read_back env_ok = None"
    by (simp add: env_ok_def)
  have dl: "delete_api_key env_ok state_with_key = (Http 200 removida_body, state_empty)"
    by (simp add: delete_api_key_def sample_defs)
  from credential_round_trip[OF sv] sv rb dl show ?thesis by blast
qed

text \<open>
  C8 as stated fails. With a configuration file the process may write and not read,
  \<open>save_api_key\<close> writes the key \<open>sk-abc\<close> and answers 200, and \<open>check_api_key\<close>
  then reports \<open>configured: false\<close>: the loader cannot open the file.
\<close>

theorem credential_round_trip_write_only_counterexample:
  "save_api_key env_write_only state_write_only (JObj [(py ''api_key'', JStr (py ''sk-abc''))]) =
     (Http 200 (JObj [(py ''success'', JBool True),
                      (py ''message'', JStr (py ''API Key salva com sucesso''))]),
      [ClientInit (py ''sk-abc'') base_url, RemoteCall (Client (py ''sk-abc'') base_url) test_completion],
      state_write_only) \<and>
   check_api_key state_write_only =
     Http 200 (JObj [(py ''configured'', JBool False), (py ''message'', JStr msg_nao_configurada)])"
  by (simp add: save_api_key_def save_api_key_try_def salvar_api_key_def startswith_def
      written_def is_high_surrogate_def check_api_key_def env_write_only_def
      state_write_only_def run_defs sample_defs)

text \<open>
  C9. \<open>delete_api_key\<close> is idempotent: when the configuration file is absent it changes
  nothing and answers 200 with the success body; and a second run right after a first one
  gives the same answer and the same state as the first.
\<close>

theorem delete_api_key_idempotent:
  "(config_file s = Absent \<longrightarrow> delete_api_key w s = (Http 200 removida_body, s)) \<and>
   delete_api_key w (snd (delete_api_key w s)) = delete_api_key w s"
  by (auto simp: delete_api_key_def split: option.splits)

text \<open>The theorem at the state without a file and at the state holding \<open>sk-abc\<close>.\<close>

theorem delete_api_key_idempotent_witness:
  "config_file state_empty = Absent \<and>
   delete_api_key env_ok state_empty = (Http 200 removida_body, state_empty) \<and>
   delete_api_key env_ok state_with_key = (Http 200 removida_body, state_empty) \<and>
   delete_api_key env_ok (snd (delete_api_key env_ok state_with_key)) =
     (Http 200 removida_body, state_empty)"
  using delete_api_key_idempotent[of state_empty env_ok]
    delete_api_key_idempotent[of state_with_key env_ok]
  by (simp add: delete_api_key_def sample_defs)

text \<open>
  C10, as the code has it. After \<open>salvar_api_key\<close> stored a key \<open>k\<close> in a file the
  process can read, \<open>carregar_api_key\<close> returns the key as JSON reads it back,
  trimmed. For a key without a surrogate pair that is \<open>k\<close> trimmed: the file holds
  \<open>k\<close> as it was given, \<open>check_api_key\<close> reports a key exactly when the trimmed key
  is not empty, and \<open>criar_cliente\<close> constructs its client with the trimmed key.
\<close>

theorem salvar_carregar_round_trip:
  assumes "salvar_api_key w s k = (True, s')" and "read_back w = None"
  shows "config_file s' = Content (Document (JObj [(py ''api_key'', JStr (json_reload k))])) \<and>
         carregar_api_key s' = strip (json_reload k) \<and>
         (\<not> has_surrogate_pair k \<longrightarrow>
            config_file s' = Content (Document (JObj [(py ''api_key'', JStr k)])) \<and>
            carregar_api_key s' = strip k \<and>
            check_api_key s' =
              Http 200 (JObj [(py ''configured'', JBool (strip k \<noteq> [])),
                              (py ''message'',
                               JStr (if strip k \<noteq> [] then msg_configurada
                                     else msg_nao_configurada))]) \<and>
            snd (criar_cliente w' s') =
              (if strip k = [] then [] else [ClientInit (strip k) base_url]))"
proof -
  from assms have cf:
    "config_file s' = Content (Document (JObj [(py ''api_key'', JStr (json_reload k))]))"
    by (auto simp: salvar_api_key_def written_def split: option.splits write_error.splits)
  then have ld: "carregar_api_key s' = strip (json_reload k)"
    by (simp add: carregar_api_key_stored stored_api_key_written)
  show ?thesis
    using cf ld by (simp add: check_api_key_def criar_cliente_events json_reload_no_pair)
qed

text \<open>The theorem at the key " sk-abc  ", stored into the empty state.\<close>

theorem salvar_carregar_round_trip_witness:
  "salvar_api_key env_ok state_empty (py '' sk-abc  '') =
     (True, state_empty\<lparr>config_file := Content (Document (JObj [(py ''api_key'', JStr (py '' sk-abc  ''))]))\<rparr>) \<and>
   read_back env_ok = None \<and> \<not> has_surrogate_pair (py '' sk-abc  '') \<and>
   carregar_api_key (state_empty\<lparr>config_file := Content (Document (JObj [(py ''api_key'', JStr (py '' sk-abc  ''))]))\<rparr>) = py ''sk-abc''"
proof -
  have sv: "salvar_api_key env_ok state_empty (py '' sk-abc  '') =
     (True, state_empty\<lparr>config_file := Content (Document (JObj [(py ''api_key'', JStr (py '' sk-abc  ''))]))\<rparr>)"
    by (simp add: salvar_api_key_def written_def env_ok_def py_def is_high_surrogate_def)
  have rb: "read_back env_ok = None"
    by (simp add: env_ok_def)
  have np: "\<not> has_surrogate_pair (py '' sk-abc  '')"
    by (simp add: py_def is_high_surrogate_def)
  have st: "strip (py '' sk-abc  '') = py ''sk-abc''"
    by (simp add: strip_def isspace_def py_def)
  from salvar_carregar_round_trip[OF sv rb] sv rb np st show ?thesis by simp
qed

text \<open>
  C10 as stated fails. The key \<open>sk-\<close> followed by the surrogates U+D83D and U+DE00 is
  stored and comes back as \<open>sk-\<close> followed by the one character U+1F600, which is not
  the key trimmed. And a key stored in a file the process may write and not read comes
  back as the empty string.
\<close>

theorem salvar_carregar_surrogates_counterexample:
  "salvar_api_key env_ok state_empty (py ''sk-'' @ [0xD83D, 0xDE00]) =
     (True, state_empty\<lparr>config_file :=
        Content (Document (JObj [(py ''api_key'', JStr (py ''sk-'' @ [0x1F600]))]))\<rparr>) \<and>
   carregar_api_key (state_empty\<lparr>config_file :=
        Content (Document (JObj [(py ''api_key'', JStr (py ''sk-'' @ [0x1F600]))]))\<rparr>) =
     py ''sk-'' @ [0x1F600] \<and>
   strip (py ''sk-'' @ [0xD83D, 0xDE00]) = py ''sk-'' @ [0xD83D, 0xDE00] \<and>
   salvar_api_key env_write_only state_write_only (py ''sk-abc'') = (True, state_write_only) \<and>
   carregar_api_key state_write_only = [] \<and>
   strip (py ''sk-abc'') = py ''sk-abc''"
  by (simp add: salvar_api_key_def written_def is_high_surrogate_def is_low_surrogate_def
      env_write_only_def state_write_only_def run_defs sample_defs)

end
